theory Spec2Isabelle
  imports Complex_Main
begin

section \<open>JavaScript values\<close>

text \<open>
  The handlers of \<^verbatim>\<open>orders-service/src/app.js\<close> and \<^verbatim>\<open>orders-service/src/index.js\<close>
  work on untyped values: the parsed request body and the parsed content of a consumed
  message. A value is \<^verbatim>\<open>undefined\<close>, \<^verbatim>\<open>null\<close>, a boolean, a number, a string, an array or
  an object (its own properties, in order; the first binding of a key is the property).
  A number is modelled by its rational value: the rounding of IEEE-754 doubles, \<^verbatim>\<open>NaN\<close>,
  the signed zero and the infinities are not modelled.
\<close>

datatype jsval =
    JUndefined
  | JNull
  | JBool bool
  | JNum rat
  | JStr string
  | JArr "jsval list"
  | JObj "(string \<times> jsval) list"

text \<open>Truthiness, as \<^verbatim>\<open>!v\<close> and \<^verbatim>\<open>a || b\<close> use it.\<close>

fun truthy :: "jsval \<Rightarrow> bool" where
  "truthy JUndefined = False"
| "truthy JNull = False"
| "truthy (JBool b) = b"
| "truthy (JNum n) = (n \<noteq> 0)"
| "truthy (JStr s) = (s \<noteq> [])"
| "truthy (JArr xs) = True"
| "truthy (JObj kvs) = True"

fun Array_isArray :: "jsval \<Rightarrow> bool" where
  "Array_isArray (JArr xs) = True"
| "Array_isArray v = False"

fun typeof :: "jsval \<Rightarrow> string" where
  "typeof JUndefined = ''undefined''"
| "typeof JNull = ''object''"
| "typeof (JBool b) = ''boolean''"
| "typeof (JNum n) = ''number''"
| "typeof (JStr s) = ''string''"
| "typeof (JArr xs) = ''object''"
| "typeof (JObj kvs) = ''object''"

text \<open>
  \<^verbatim>\<open>a || b\<close> on values.
\<close>

definition js_or :: "jsval \<Rightarrow> jsval \<Rightarrow> jsval" where
  "js_or a b = (if truthy a then a else b)"

text \<open>
  Reading a property \<^verbatim>\<open>v.k\<close> for the keys the handlers read (\<^verbatim>\<open>id\<close>, \<^verbatim>\<open>userId\<close>,
  \<^verbatim>\<open>items\<close>, \<^verbatim>\<open>total\<close>), none of which a boxed primitive or an array has: on
  \<^verbatim>\<open>undefined\<close> and \<^verbatim>\<open>null\<close> the read throws a TypeError (\<open>None\<close>), on an object it is
  the property or \<^verbatim>\<open>undefined\<close>, on everything else \<^verbatim>\<open>undefined\<close>.
\<close>

fun get_prop :: "jsval \<Rightarrow> string \<Rightarrow> jsval option" where
  "get_prop JUndefined k = None"
| "get_prop JNull k = None"
| "get_prop (JObj kvs) k = (case map_of kvs k of None \<Rightarrow> Some JUndefined | Some v \<Rightarrow> Some v)"
| "get_prop v k = Some JUndefined"

text \<open>
  Object destructuring \<^verbatim>\<open>const { k } = v\<close>, used on \<^verbatim>\<open>req.body || {}\<close>, which is never
  \<^verbatim>\<open>undefined\<close> or \<^verbatim>\<open>null\<close>.
\<close>

definition destructure :: "jsval \<Rightarrow> string \<Rightarrow> jsval" where
  "destructure v k = (case get_prop v k of None \<Rightarrow> JUndefined | Some x \<Rightarrow> x)"

subsection \<open>JSON text\<close>

text \<open>
  A text is either the JSON encoding of a value or no JSON at all. Values here come from
  \<^verbatim>\<open>JSON.parse\<close>, so \<^verbatim>\<open>JSON.stringify\<close> encodes them and \<^verbatim>\<open>JSON.parse\<close> gives them back;
  \<^verbatim>\<open>JSON.parse\<close> throws a SyntaxError (\<open>None\<close>) on anything else.
\<close>

datatype json_text = Encoded jsval | Malformed string

definition JSON_stringify :: "jsval \<Rightarrow> json_text" where
  "JSON_stringify v = Encoded v"

fun JSON_parse :: "json_text \<Rightarrow> jsval option" where
  "JSON_parse (Encoded v) = Some v"
| "JSON_parse (Malformed s) = None"

subsection \<open>The user cache: a JavaScript Map\<close>

text \<open>
  \<^verbatim>\<open>const userCache = new Map()\<close>. A Map compares keys with SameValueZero: primitives by
  value, arrays and objects by reference. Every key the handlers use is freshly parsed
  (from a message or from a request body), so an array or object key is never the same
  reference as a key already stored. The Map is the list of its entries in insertion
  order.
\<close>

fun is_primitive :: "jsval \<Rightarrow> bool" where
  "is_primitive (JArr xs) = False"
| "is_primitive (JObj kvs) = False"
| "is_primitive v = True"

definition same_value_zero :: "jsval \<Rightarrow> jsval \<Rightarrow> bool" where
  "same_value_zero a b = (is_primitive a \<and> a = b)"

type_synonym js_map = "(jsval \<times> jsval) list"

fun Map_has :: "js_map \<Rightarrow> jsval \<Rightarrow> bool" where
  "Map_has [] k = False"
| "Map_has ((k', v') # m) k = (same_value_zero k' k \<or> Map_has m k)"

fun Map_get :: "js_map \<Rightarrow> jsval \<Rightarrow> jsval option" where
  "Map_get [] k = None"
| "Map_get ((k', v') # m) k = (if same_value_zero k' k then Some v' else Map_get m k)"

fun Map_set :: "js_map \<Rightarrow> jsval \<Rightarrow> jsval \<Rightarrow> js_map" where
  "Map_set [] k v = [(k, v)]"
| "Map_set ((k', v') # m) k v =
     (if same_value_zero k' k then (k', v) # m else (k', v') # Map_set m k v)"

section \<open>Configuration\<close>

text \<open>
  The routing keys come from the environment or from \<^verbatim>\<open>../common/events.js\<close>
  (\<^verbatim>\<open>ROUTING_KEYS\<close>), which is not among the sources: they are parameters.
\<close>

record config =
  EXCHANGE :: string
  ROUTING_KEY_USER_CREATED :: string
  ROUTING_KEY_USER_UPDATED :: string
  ORDER_CREATED :: string
  ORDER_CANCELLED :: string

section \<open>The event consumer\<close>

text \<open>
  The callback of \<^verbatim>\<open>amqp.ch.consume(QUEUE, msg => ...)\<close>, the same in \<^verbatim>\<open>app.js\<close> and
  \<^verbatim>\<open>index.js\<close>. A message has a content and the routing key it was published with; the
  broker calls the callback with \<^verbatim>\<open>null\<close> (\<open>None\<close>) when it cancels the consumer. The
  callback answers the delivery with \<^verbatim>\<open>ack(msg)\<close> or \<^verbatim>\<open>nack(msg, allUpTo, requeue)\<close>.
\<close>

record amqp_msg =
  content :: json_text
  routingKey :: string

datatype delivery = NoAnswer | Ack | Nack bool bool

text \<open>
  The body of the \<^verbatim>\<open>try\<close>: \<open>None\<close> when \<^verbatim>\<open>JSON.parse\<close> or the read of \<^verbatim>\<open>user.id\<close> throws,
  before the cache is touched.
\<close>

definition consume_try :: "config \<Rightarrow> js_map \<Rightarrow> amqp_msg \<Rightarrow> js_map option" where
  "consume_try cfg userCache msg =
     (case JSON_parse (content msg) of
        None \<Rightarrow> None
      | Some user \<Rightarrow>
          (let eventType = routingKey msg in
           if eventType = ROUTING_KEY_USER_CREATED cfg \<or> eventType = ROUTING_KEY_USER_UPDATED cfg
           then (case get_prop user ''id'' of
                   None \<Rightarrow> None
                 | Some uid \<Rightarrow> Some (Map_set userCache uid user))
           else Some userCache))"

definition consume :: "config \<Rightarrow> js_map \<Rightarrow> amqp_msg option \<Rightarrow> js_map \<times> delivery" where
  "consume cfg userCache m =
     (case m of
        None \<Rightarrow> (userCache, NoAnswer)
      | Some msg \<Rightarrow>
          (case consume_try cfg userCache msg of
             Some userCache' \<Rightarrow> (userCache', Ack)
           | None \<Rightarrow> (userCache, Nack False False)))"

text \<open>The cache after a sequence of deliveries, in order.\<close>

definition consume_all :: "config \<Rightarrow> js_map \<Rightarrow> amqp_msg list \<Rightarrow> js_map" where
  "consume_all cfg userCache msgs = foldl (\<lambda>c msg. fst (consume cfg c (Some msg))) userCache msgs"

section \<open>Orders, responses and effects\<close>

text \<open>
  An order as \<^verbatim>\<open>create\<close> hands it to the store (\<^verbatim>\<open>orderData\<close>), as \<^verbatim>\<open>index.js\<close> keeps it
  (with \<^verbatim>\<open>createdAt\<close>), and as the table of \<^verbatim>\<open>app.js\<close> holds it (with \<^verbatim>\<open>updatedAt\<close> too).
  The items are a JSON text in the table and a value everywhere else. A time is a number
  of milliseconds.
\<close>

record 'i order_data =
  id_order :: string
  userId :: jsval
  items :: 'i
  total :: jsval
  status :: string

record 'i order_created = "'i order_data" +
  createdAt :: nat

record 'i order_row = "'i order_created" +
  updatedAt :: nat

text \<open>\<^verbatim>\<open>{ ...row, items: its }\<close>\<close>

definition with_items :: "'i order_row \<Rightarrow> 'j \<Rightarrow> 'j order_row" where
  "with_items row its =
     \<lparr>id_order = id_order row, userId = userId row, items = its, total = total row,
      status = status row, createdAt = createdAt row, updatedAt = updatedAt row\<rparr>"

datatype 'o resp_body = OrderBody 'o | ErrorBody string

record 'o response =
  status_code :: nat
  body :: "'o resp_body"

text \<open>A thrown error: its \<^verbatim>\<open>code\<close> (when it has one) and its \<^verbatim>\<open>message\<close>.\<close>

record js_error =
  err_code :: "string option"
  err_message :: string

text \<open>
  What a handler does to its collaborators, in order: it fires the breaker, calls the
  store, publishes. A publish that throws is recorded as such.
\<close>

datatype payload =
    OrderPayload "jsval order_row"
  | CancelPayload string string

datatype effect =
    BreakerFire jsval
  | PrismaCreate "json_text order_data"
  | PrismaUpdate string string nat
  | Publish string string payload
  | PublishThrew string string payload

record ('o, 's) outcome =
  resp :: "'o response"
  store :: 's
  trace :: "effect list"

text \<open>
  What the handler cannot decide: how \<^verbatim>\<open>breaker.fire(userId)\<close> settles, what \<^verbatim>\<open>nanoid\<close>
  returns, whether the channel exists (\<^verbatim>\<open>amqp?.ch\<close>) and whether \<^verbatim>\<open>publish\<close> throws, the
  clock, and whether the database answers.
\<close>

datatype fire_outcome = Resolved | Rejected js_error

record env =
  fire :: fire_outcome
  nanoid :: "nat \<Rightarrow> string"
  amqp_ch :: bool
  publish_throws :: bool
  now :: nat
  db_up :: bool

text \<open>The messages of the responses, as UTF-8 bytes.\<close>

definition msg_required :: string where
  "msg_required = ''userId, items[], total<number> s'' @ [CHR 0xC3, CHR 0xA3] @ ''o obrigat''
     @ [CHR 0xC3, CHR 0xB3] @ ''rios''"

definition msg_unavailable :: string where
  "msg_unavailable = ''users-service indispon'' @ [CHR 0xC3, CHR 0xAD] @ ''vel e usu''
     @ [CHR 0xC3, CHR 0xA1] @ ''rio n'' @ [CHR 0xC3, CHR 0xA3] @ ''o encontrado no cache''"

definition msg_not_found :: string where
  "msg_not_found = ''Pedido n'' @ [CHR 0xC3, CHR 0xA3] @ ''o encontrado''"

section \<open>The order table\<close>

text \<open>
  Modelled from the spec: \<^verbatim>\<open>db.js\<close> and the Prisma schema are not among the sources. The
  persistence collaborator of section 6 offers \<^verbatim>\<open>saveOrder(order)\<close> and
  \<^verbatim>\<open>updateOrderStatus(id, status) -> Result<Order, NotFound>\<close>; section 7 has a Conflict on
  a duplicate unique key; an order has a creation and a last-modified timestamp
  (section 3). The table is keyed by the order id. A failure has Prisma's code, which
  the handlers read: \<^verbatim>\<open>P2002\<close> for the conflict, \<^verbatim>\<open>P2025\<close> for the missing record, none
  for a database that does not answer.
\<close>

type_synonym order_table = "string \<rightharpoonup> json_text order_row"

definition prisma_order_create ::
  "bool \<Rightarrow> nat \<Rightarrow> order_table \<Rightarrow> json_text order_data
     \<Rightarrow> js_error + (json_text order_row \<times> order_table)" where
  "prisma_order_create up t tbl d =
     (if \<not> up then Inl \<lparr>err_code = None, err_message = ''database unavailable''\<rparr>
      else case tbl (id_order d) of
        Some r \<Rightarrow> Inl \<lparr>err_code = Some ''P2002'', err_message = ''Unique constraint failed''\<rparr>
      | None \<Rightarrow>
          (let row = \<lparr>id_order = id_order d, userId = userId d, items = items d,
                      total = total d, status = status d, createdAt = t, updatedAt = t\<rparr>
           in Inr (row, tbl(id_order d \<mapsto> row))))"

definition prisma_order_update ::
  "bool \<Rightarrow> order_table \<Rightarrow> string \<Rightarrow> string \<Rightarrow> nat
     \<Rightarrow> js_error + (json_text order_row \<times> order_table)" where
  "prisma_order_update up tbl oid st t =
     (if \<not> up then Inl \<lparr>err_code = None, err_message = ''database unavailable''\<rparr>
      else case tbl oid of
        None \<Rightarrow> Inl \<lparr>err_code = Some ''P2025'', err_message = ''Record to update not found''\<rparr>
      | Some r \<Rightarrow>
          (let row = r\<lparr>status := st, updatedAt := t\<rparr>
           in Inr (row, tbl(oid \<mapsto> row))))"

section \<open>Publishing\<close>

text \<open>
  \<^verbatim>\<open>try { if (amqp?.ch) { amqp.ch.publish(EXCHANGE, key, payload, ...) } } catch (err) { ... }\<close>:
  nothing without a channel; a throw is caught and logged.
\<close>

definition publish :: "config \<Rightarrow> env \<Rightarrow> string \<Rightarrow> payload \<Rightarrow> effect list" where
  "publish cfg e key p =
     (if amqp_ch e
      then (if publish_throws e then [PublishThrew (EXCHANGE cfg) key p]
            else [Publish (EXCHANGE cfg) key p])
      else [])"

section \<open>Creating an order (\<^verbatim>\<open>app.js\<close>)\<close>

text \<open>
  The validation of the user in \<^verbatim>\<open>app.post('/')\<close>, lines 188 to 197: the \<^verbatim>\<open>try\<close> around
  \<^verbatim>\<open>breaker.fire(userId)\<close> and its \<^verbatim>\<open>catch\<close>. The handler goes on (\<open>Admit\<close>) or returns a
  response (\<open>Reject\<close> with its status and error). The cache is read when the \<^verbatim>\<open>catch\<close>
  runs.
\<close>

datatype verdict = Admit | Reject nat string

definition validate :: "js_map \<Rightarrow> jsval \<Rightarrow> fire_outcome \<Rightarrow> verdict" where
  "validate userCache uid settled =
     (case settled of
        Resolved \<Rightarrow> Admit
      | Rejected err \<Rightarrow>
          if \<not> Map_has userCache uid
          then (let status = (if err_message err = ''CIRCUIT_OPEN'' then 503 else 503)
                in Reject status msg_unavailable)
          else Admit)"

text \<open>\<^verbatim>\<open>const { userId, items, total } = req.body || {}\<close>\<close>

definition destructure_body :: "jsval \<Rightarrow> jsval \<times> jsval \<times> jsval" where
  "destructure_body req_body =
     (let b = js_or req_body (JObj [])
      in (destructure b ''userId'', destructure b ''items'', destructure b ''total''))"

definition create_order ::
  "config \<Rightarrow> env \<Rightarrow> js_map \<Rightarrow> order_table \<Rightarrow> jsval
     \<Rightarrow> (jsval order_row, order_table) outcome" where
  "create_order cfg e userCache tbl req_body =
     (case destructure_body req_body of (uid, its, tot) \<Rightarrow>
      if \<not> truthy uid \<or> \<not> Array_isArray its \<or> typeof tot \<noteq> ''number''
      then \<lparr>resp = \<lparr>status_code = 400, body = ErrorBody msg_required\<rparr>,
            store = tbl, trace = []\<rparr>
      else
        (case validate userCache uid (fire e) of
           Reject st err \<Rightarrow>
             \<lparr>resp = \<lparr>status_code = st, body = ErrorBody err\<rparr>,
              store = tbl, trace = [BreakerFire uid]\<rparr>
         | Admit \<Rightarrow>
             (let orderData = \<lparr>id_order = ''o_'' @ nanoid e 6, userId = uid,
                                items = JSON_stringify its, total = tot,
                                status = ''created''\<rparr>
              in
              case prisma_order_create (db_up e) (now e) tbl orderData of
                Inl err \<Rightarrow>
                  \<lparr>resp = \<lparr>status_code = 500, body = ErrorBody ''Failed to create order''\<rparr>,
                   store = tbl, trace = [BreakerFire uid, PrismaCreate orderData]\<rparr>
              | Inr (orderFromDb, tbl') \<Rightarrow>
                  (case JSON_parse (items orderFromDb) of
                     None \<Rightarrow>
                       \<lparr>resp = \<lparr>status_code = 500,
                                 body = ErrorBody ''Failed to create order''\<rparr>,
                        store = tbl', trace = [BreakerFire uid, PrismaCreate orderData]\<rparr>
                   | Some parsed \<Rightarrow>
                       (let order = with_items orderFromDb parsed
                        in \<lparr>resp = \<lparr>status_code = 201, body = OrderBody order\<rparr>,
                            store = tbl',
                            trace = [BreakerFire uid, PrismaCreate orderData]
                              @ publish cfg e (ORDER_CREATED cfg) (OrderPayload order)\<rparr>)))))"

section \<open>Cancelling an order\<close>

text \<open>\<^verbatim>\<open>app.post('/orders/:id/cancel')\<close> of \<^verbatim>\<open>app.js\<close>, on the table.\<close>

definition cancel_order ::
  "config \<Rightarrow> env \<Rightarrow> order_table \<Rightarrow> string \<Rightarrow> (jsval order_row, order_table) outcome" where
  "cancel_order cfg e tbl orderId =
     (case prisma_order_update (db_up e) tbl orderId ''cancelled'' (now e) of
        Inl err \<Rightarrow>
          if err_code err = Some ''P2025''
          then \<lparr>resp = \<lparr>status_code = 404, body = ErrorBody msg_not_found\<rparr>,
                store = tbl, trace = [PrismaUpdate orderId ''cancelled'' (now e)]\<rparr>
          else \<lparr>resp = \<lparr>status_code = 500, body = ErrorBody ''Failed to cancel order''\<rparr>,
                store = tbl, trace = [PrismaUpdate orderId ''cancelled'' (now e)]\<rparr>
      | Inr (updatedOrderDb, tbl') \<Rightarrow>
          (case JSON_parse (items updatedOrderDb) of
             None \<Rightarrow>
               \<lparr>resp = \<lparr>status_code = 500, body = ErrorBody ''Failed to cancel order''\<rparr>,
                store = tbl', trace = [PrismaUpdate orderId ''cancelled'' (now e)]\<rparr>
           | Some parsed \<Rightarrow>
               (let updatedOrder = with_items updatedOrderDb parsed
                in \<lparr>resp = \<lparr>status_code = 200, body = OrderBody updatedOrder\<rparr>,
                    store = tbl',
                    trace = [PrismaUpdate orderId ''cancelled'' (now e)]
                      @ publish cfg e (ORDER_CANCELLED cfg)
                          (CancelPayload orderId ''cancelled'')\<rparr>)))"

text \<open>
  \<^verbatim>\<open>app.post('/orders/:id/cancel')\<close> of \<^verbatim>\<open>index.js\<close>, on the in-memory
  \<^verbatim>\<open>const orders = new Map()\<close>, whose keys are strings.
\<close>

type_synonym orders_map = "string \<rightharpoonup> jsval order_created"

definition cancel_order_index ::
  "config \<Rightarrow> env \<Rightarrow> orders_map \<Rightarrow> string \<Rightarrow> (jsval order_created, orders_map) outcome" where
  "cancel_order_index cfg e orders orderId =
     (case orders orderId of
        None \<Rightarrow>
          \<lparr>resp = \<lparr>status_code = 404, body = ErrorBody msg_not_found\<rparr>,
           store = orders, trace = []\<rparr>
      | Some order \<Rightarrow>
          (let order' = order\<lparr>status := ''cancelled''\<rparr>;
               orders' = orders(orderId \<mapsto> order')
           in \<lparr>resp = \<lparr>status_code = 200, body = OrderBody order'\<rparr>,
               store = orders',
               trace = publish cfg e (ORDER_CANCELLED cfg)
                         (CancelPayload orderId ''cancelled'')\<rparr>))"

section \<open>Notions used in the properties\<close>

text \<open>
  A message carries the user id \<open>k\<close> when it is a create or update event whose content
  decodes to a value whose \<^verbatim>\<open>id\<close> is the same value as \<open>k\<close>, as the Map compares keys.
\<close>

definition carries :: "config \<Rightarrow> jsval \<Rightarrow> amqp_msg \<Rightarrow> bool" where
  "carries cfg k msg =
     ((routingKey msg = ROUTING_KEY_USER_CREATED cfg \<or> routingKey msg = ROUTING_KEY_USER_UPDATED cfg) \<and>
      (case JSON_parse (content msg) of
         None \<Rightarrow> False
       | Some user \<Rightarrow>
           (case get_prop user ''id'' of None \<Rightarrow> False | Some uid \<Rightarrow> same_value_zero uid k)))"

text \<open>
  The spec's words (section 8): the final snapshot for a user is the payload of the
  last-applied create/update event for that user; \<open>None\<close> when no event of the sequence
  carries the id.
\<close>

definition last_applied_snapshot :: "config \<Rightarrow> amqp_msg list \<Rightarrow> jsval \<Rightarrow> jsval option" where
  "last_applied_snapshot cfg msgs k =
     (case filter (carries cfg k) (rev msgs) of
        [] \<Rightarrow> None
      | msg # older \<Rightarrow> JSON_parse (content msg))"

text \<open>
  The id of a message's payload is a primitive (a string, as the registry emits, a number,
  a boolean, \<^verbatim>\<open>null\<close> or missing), or the message has no payload or id to read.
\<close>

definition primitive_id :: "amqp_msg \<Rightarrow> bool" where
  "primitive_id msg =
     (case JSON_parse (content msg) of
        None \<Rightarrow> True
      | Some user \<Rightarrow> (case get_prop user ''id'' of None \<Rightarrow> True | Some uid \<Rightarrow> is_primitive uid))"

text \<open>A publish, attempted: it returned or it threw.\<close>

fun is_publish :: "effect \<Rightarrow> bool" where
  "is_publish (Publish x k p) = True"
| "is_publish (PublishThrew x k p) = True"
| "is_publish a = False"

section \<open>Example inputs\<close>

definition cfg0 :: config where
  "cfg0 = \<lparr>EXCHANGE = ''app.topic'', ROUTING_KEY_USER_CREATED = ''user.created'',
            ROUTING_KEY_USER_UPDATED = ''user.updated'', ORDER_CREATED = ''order.created'',
            ORDER_CANCELLED = ''order.cancelled''\<rparr>"

text \<open>The registry answers, the broker is connected, the database is up.\<close>

definition env_ok :: env where
  "env_ok = \<lparr>fire = Resolved, nanoid = (\<lambda>n. ''V1StGX''), amqp_ch = True,
             publish_throws = False, now = 1000, db_up = True\<rparr>"

text \<open>The breaker rejects: its fallback throws \<^verbatim>\<open>new Error('CIRCUIT_OPEN')\<close>.\<close>

definition env_down :: env where
  "env_down = env_ok\<lparr>fire := Rejected \<lparr>err_code = None, err_message = ''CIRCUIT_OPEN''\<rparr>\<rparr>"

text \<open>\<^verbatim>\<open>amqp.ch.publish\<close> throws.\<close>

definition env_publish_fails :: env where
  "env_publish_fails = env_ok\<lparr>publish_throws := True\<rparr>"

definition user_ana :: jsval where
  "user_ana = JObj [(''id'', JStr ''u1''), (''name'', JStr ''Ana'')]"

definition malformed_msg :: amqp_msg where
  "malformed_msg = \<lparr>content = Malformed ''{id:'', routingKey = ''user.created''\<rparr>"

text \<open>\<^verbatim>\<open>{ userId: "u9", items: [{ sku: "a" }], total: 150 }\<close>\<close>

definition body_u9 :: jsval where
  "body_u9 = JObj [(''userId'', JStr ''u9''),
                   (''items'', JArr [JObj [(''sku'', JStr ''a'')]]),
                   (''total'', JNum 150)]"

text \<open>\<^verbatim>\<open>{ userId: "u9", items: "a", total: 150 }\<close>: the items are not an array.\<close>

definition body_bad_items :: jsval where
  "body_bad_items = JObj [(''userId'', JStr ''u9''), (''items'', JStr ''a''), (''total'', JNum 150)]"

text \<open>An order of user \<^verbatim>\<open>u1\<close>, as the table and as \<^verbatim>\<open>index.js\<close> hold it.\<close>

definition row_o1 :: "json_text order_row" where
  "row_o1 = \<lparr>id_order = ''o_1'', userId = JStr ''u1'', items = Encoded (JArr []),
             total = JNum 50, status = ''created'', createdAt = 10, updatedAt = 10\<rparr>"

definition order_o1 :: "jsval order_created" where
  "order_o1 = \<lparr>id_order = ''o_1'', userId = JStr ''u1'', items = JArr [],
               total = JNum 50, status = ''created'', createdAt = 10\<rparr>"

text \<open>The same order once cancelled.\<close>

definition row_o1_cancelled :: "json_text order_row" where
  "row_o1_cancelled = row_o1\<lparr>status := ''cancelled''\<rparr>"

definition order_o1_cancelled :: "jsval order_created" where
  "order_o1_cancelled = order_o1\<lparr>status := ''cancelled''\<rparr>"

text \<open>The row that \<^verbatim>\<open>create\<close> stores for \<open>body_u9\<close> under \<open>env_ok\<close>.\<close>

definition row_u9 :: "json_text order_row" where
  "row_u9 = \<lparr>id_order = ''o_V1StGX'', userId = JStr ''u9'',
             items = Encoded (JArr [JObj [(''sku'', JStr ''a'')]]), total = JNum 150,
             status = ''created'', createdAt = 1000, updatedAt = 1000\<rparr>"

text \<open>\<^verbatim>\<open>{ userId: "u1", items: [], total: -5 }\<close>\<close>

definition body_negative :: jsval where
  "body_negative = JObj [(''userId'', JStr ''u1''), (''items'', JArr []), (''total'', JNum (- 5))]"

text \<open>Two registry events for user \<^verbatim>\<open>u1\<close>: created as Bea, then updated to Ana.\<close>

definition msg_ana :: amqp_msg where
  "msg_ana = \<lparr>content = Encoded user_ana, routingKey = ''user.updated''\<rparr>"

definition msg_bea :: amqp_msg where
  "msg_bea = \<lparr>content = Encoded (JObj [(''id'', JStr ''u1''), (''name'', JStr ''Bea'')]),
              routingKey = ''user.created''\<rparr>"

section \<open>The consumer discards what it cannot decode\<close>

text \<open>
  C9. When the content of a received message does not decode (\<^verbatim>\<open>JSON.parse\<close> throws), the
  callback answers \<^verbatim>\<open>nack(msg, false, false)\<close>: the message is rejected without requeue,
  and the user cache is what it was.
\<close>

theorem C9_malformed_message_discarded:
  "JSON_parse (content msg) = None \<Longrightarrow>
     consume cfg userCache (Some msg) = (userCache, Nack False False)"
  by (simp add: consume_def consume_try_def)

theorem C9_malformed_message_discarded_witness:
  "JSON_parse (content malformed_msg) = None \<and>
   consume cfg0 [(JStr ''u1'', user_ana)] (Some malformed_msg)
     = ([(JStr ''u1'', user_ana)], Nack False False)"
  using C9_malformed_message_discarded [of malformed_msg cfg0 "[(JStr ''u1'', user_ana)]"]
  by (simp add: malformed_msg_def)

section \<open>An invalid body stops the handler at once\<close>

text \<open>
  C10. When the body of an order-creation request is invalid (\<^verbatim>\<open>userId\<close> missing or
  falsy, \<^verbatim>\<open>items\<close> not an array, or \<^verbatim>\<open>total\<close> not of type number), the handler answers 400
  and does nothing else: the breaker is not fired, the table is not called and is
  unchanged, nothing is published.
\<close>

theorem C10_invalid_body_no_side_effect:
  "destructure_body req_body = (uid, its, tot) \<Longrightarrow>
   \<not> truthy uid \<or> \<not> Array_isArray its \<or> typeof tot \<noteq> ''number'' \<Longrightarrow>
   create_order cfg e userCache tbl req_body =
     \<lparr>resp = \<lparr>status_code = 400, body = ErrorBody msg_required\<rparr>, store = tbl, trace = []\<rparr>"
  by (simp add: create_order_def)

theorem C10_invalid_body_no_side_effect_witness:
  "destructure_body body_bad_items = (JStr ''u9'', JStr ''a'', JNum 150) \<and>
   \<not> Array_isArray (JStr ''a'') \<and>
   create_order cfg0 env_ok [] Map.empty body_bad_items =
     \<lparr>resp = \<lparr>status_code = 400, body = ErrorBody msg_required\<rparr>,
      store = Map.empty, trace = []\<rparr>"
proof -
  have fields: "destructure_body body_bad_items = (JStr ''u9'', JStr ''a'', JNum 150)"
    by (simp add: destructure_body_def body_bad_items_def js_or_def destructure_def)
  have bad: "\<not> truthy (JStr ''u9'') \<or> \<not> Array_isArray (JStr ''a'') \<or> typeof (JNum 150) \<noteq> ''number''"
    by simp
  show ?thesis
    using fields bad C10_invalid_body_no_side_effect [OF fields bad, of cfg0 env_ok "[]" Map.empty]
    by simp
qed

section \<open>The validation of the user\<close>

lemma body_u9_fields:
  "destructure_body body_u9 = (JStr ''u9'', JArr [JObj [(''sku'', JStr ''a'')]], JNum 150)"
  by (simp add: destructure_body_def body_u9_def js_or_def destructure_def)

text \<open>
  C1. For an order-creation request with a valid body and user id \<open>uid\<close>: when the live
  check through the breaker succeeds the verdict is \<open>Admit\<close>; when it fails (whatever the
  error: open circuit, upstream failure, timeout) and the cache has an entry for \<open>uid\<close>
  the verdict is \<open>Admit\<close>; when it fails and the cache has none the verdict is \<open>Reject\<close>,
  answered 503 with the error of the unavailable registry and the unknown user. On
  \<open>Admit\<close> the handler goes on to \<^verbatim>\<open>prisma.order.create\<close>, and the order is created (201,
  stored with status created) whenever the table accepts it.
\<close>

theorem C1_validation_verdict:
  assumes "destructure_body req_body = (uid, its, tot)"
    and "truthy uid" and "Array_isArray its" and "typeof tot = ''number''"
  shows
   "(fire e = Resolved \<longrightarrow> validate userCache uid (fire e) = Admit) \<and>
    (fire e = Rejected err \<and> Map_has userCache uid \<longrightarrow> validate userCache uid (fire e) = Admit) \<and>
    (fire e = Rejected err \<and> \<not> Map_has userCache uid \<longrightarrow>
       validate userCache uid (fire e) = Reject 503 msg_unavailable \<and>
       resp (create_order cfg e userCache tbl req_body)
         = \<lparr>status_code = 503, body = ErrorBody msg_unavailable\<rparr>) \<and>
    (validate userCache uid (fire e) = Admit \<longrightarrow>
       take 2 (trace (create_order cfg e userCache tbl req_body))
         = [BreakerFire uid,
            PrismaCreate \<lparr>id_order = ''o_'' @ nanoid e 6, userId = uid,
                          items = JSON_stringify its, total = tot, status = ''created''\<rparr>] \<and>
       (db_up e \<and> tbl (''o_'' @ nanoid e 6) = None \<longrightarrow>
          status_code (resp (create_order cfg e userCache tbl req_body)) = 201 \<and>
          (\<exists>row. store (create_order cfg e userCache tbl req_body) (''o_'' @ nanoid e 6) = Some row \<and>
                 userId row = uid \<and> status row = ''created'' \<and>
                 body (resp (create_order cfg e userCache tbl req_body))
                   = OrderBody (with_items row its))))"
  using assms
  by (auto simp: create_order_def validate_def prisma_order_create_def JSON_stringify_def
        Let_def publish_def split: sum.splits option.splits)

theorem C1_validation_verdict_witness:
  "validate [] (JStr ''u9'') (fire env_ok) = Admit \<and>
   status_code (resp (create_order cfg0 env_ok [] Map.empty body_u9)) = 201 \<and>
   validate [(JStr ''u9'', JObj [(''id'', JStr ''u9'')])] (JStr ''u9'') (fire env_down) = Admit \<and>
   validate [] (JStr ''u9'') (fire env_down) = Reject 503 msg_unavailable \<and>
   resp (create_order cfg0 env_down [] Map.empty body_u9)
     = \<lparr>status_code = 503, body = ErrorBody msg_unavailable\<rparr>"
  using
    C1_validation_verdict [OF body_u9_fields, where e = env_ok and userCache = "[]"
       and cfg = cfg0 and tbl = Map.empty]
    C1_validation_verdict [OF body_u9_fields, where e = env_down
       and err = "\<lparr>err_code = None, err_message = ''CIRCUIT_OPEN''\<rparr>"
       and userCache = "[(JStr ''u9'', JObj [(''id'', JStr ''u9'')])]"
       and cfg = cfg0 and tbl = Map.empty]
    C1_validation_verdict [OF body_u9_fields, where e = env_down
       and err = "\<lparr>err_code = None, err_message = ''CIRCUIT_OPEN''\<rparr>"
       and userCache = "[]" and cfg = cfg0 and tbl = Map.empty]
  by (simp add: env_ok_def env_down_def same_value_zero_def)

text \<open>
  C7. When the creation is rejected because the live check fails and the user is not in
  the cache, the table is unchanged and the handler has done nothing but fire the
  breaker: no call of the table, no publish.
\<close>

theorem C7_reject_leaves_store_and_bus_untouched:
  "destructure_body req_body = (uid, its, tot) \<Longrightarrow>
   truthy uid \<Longrightarrow> Array_isArray its \<Longrightarrow> typeof tot = ''number'' \<Longrightarrow>
   fire e = Rejected err \<Longrightarrow> \<not> Map_has userCache uid \<Longrightarrow>
   create_order cfg e userCache tbl req_body =
     \<lparr>resp = \<lparr>status_code = 503, body = ErrorBody msg_unavailable\<rparr>,
      store = tbl, trace = [BreakerFire uid]\<rparr>"
  by (simp add: create_order_def validate_def)

theorem C7_reject_leaves_store_and_bus_untouched_witness:
  "destructure_body body_u9 = (JStr ''u9'', JArr [JObj [(''sku'', JStr ''a'')]], JNum 150) \<and>
   fire env_down = Rejected \<lparr>err_code = None, err_message = ''CIRCUIT_OPEN''\<rparr> \<and>
   \<not> Map_has [(JStr ''u1'', user_ana)] (JStr ''u9'') \<and>
   create_order cfg0 env_down [(JStr ''u1'', user_ana)] Map.empty body_u9 =
     \<lparr>resp = \<lparr>status_code = 503, body = ErrorBody msg_unavailable\<rparr>,
      store = Map.empty, trace = [BreakerFire (JStr ''u9'')]\<rparr>"
proof -
  have f: "fire env_down = Rejected \<lparr>err_code = None, err_message = ''CIRCUIT_OPEN''\<rparr>"
    by (simp add: env_down_def env_ok_def)
  have miss: "\<not> Map_has [(JStr ''u1'', user_ana)] (JStr ''u9'')"
    by (simp add: same_value_zero_def)
  show ?thesis
    using body_u9_fields f miss
      C7_reject_leaves_store_and_bus_untouched [OF body_u9_fields _ _ _ f miss, of cfg0 Map.empty]
    by simp
qed

section \<open>Cancelling an order that does not exist\<close>

text \<open>
  C6. Cancelling an order id that is not in the store answers 404, leaves the store as it
  was and publishes nothing: in \<^verbatim>\<open>index.js\<close> by the lookup in the Map, in \<^verbatim>\<open>app.js\<close> by the
  update of the table, which finds no record (the database answering).
\<close>

theorem C6_cancel_unknown_order:
  "(orders orderId = None \<longrightarrow>
      cancel_order_index cfg e orders orderId =
        \<lparr>resp = \<lparr>status_code = 404, body = ErrorBody msg_not_found\<rparr>,
         store = orders, trace = []\<rparr>) \<and>
   (tbl orderId = None \<and> db_up e \<longrightarrow>
      cancel_order cfg e tbl orderId =
        \<lparr>resp = \<lparr>status_code = 404, body = ErrorBody msg_not_found\<rparr>,
         store = tbl, trace = [PrismaUpdate orderId ''cancelled'' (now e)]\<rparr>)"
  by (simp add: cancel_order_index_def cancel_order_def prisma_order_update_def)

theorem C6_cancel_unknown_order_witness:
  "[''o_1'' \<mapsto> order_o1] ''o_2'' = None \<and> [''o_1'' \<mapsto> row_o1] ''o_2'' = None \<and> db_up env_ok \<and>
   cancel_order_index cfg0 env_ok [''o_1'' \<mapsto> order_o1] ''o_2'' =
        \<lparr>resp = \<lparr>status_code = 404, body = ErrorBody msg_not_found\<rparr>,
         store = [''o_1'' \<mapsto> order_o1], trace = []\<rparr> \<and>
   cancel_order cfg0 env_ok [''o_1'' \<mapsto> row_o1] ''o_2'' =
        \<lparr>resp = \<lparr>status_code = 404, body = ErrorBody msg_not_found\<rparr>,
         store = [''o_1'' \<mapsto> row_o1], trace = [PrismaUpdate ''o_2'' ''cancelled'' 1000]\<rparr>"
  using C6_cancel_unknown_order [where orders = "[''o_1'' \<mapsto> order_o1]" and orderId = "''o_2''"
      and cfg = cfg0 and e = env_ok and tbl = "[''o_1'' \<mapsto> row_o1]"]
  by (simp add: env_ok_def)

section \<open>The cache keeps the last applied event\<close>

lemma Map_get_set:
  "Map_get (Map_set m k' v) k = (if same_value_zero k' k then Some v else Map_get m k)"
  by (induction m) (auto simp: same_value_zero_def)

lemma Map_has_get: "Map_has m k = (Map_get m k \<noteq> None)"
  by (induction m) auto

lemma Map_set_idem:
  "is_primitive k \<Longrightarrow> Map_set (Map_set m k v) k v = Map_set m k v"
  by (induction m) (auto simp: same_value_zero_def)

lemma consume_all_snoc:
  "consume_all cfg c (msgs @ [msg]) = fst (consume cfg (consume_all cfg c msgs) (Some msg))"
  by (simp add: consume_all_def)

lemma consume_all_append:
  "consume_all cfg c (xs @ ys) = consume_all cfg (consume_all cfg c xs) ys"
  by (simp add: consume_all_def)

lemma consume_all_Cons:
  "consume_all cfg c (msg # msgs) = consume_all cfg (fst (consume cfg c (Some msg))) msgs"
  by (simp add: consume_all_def)

lemma consume_get:
  "Map_get (fst (consume cfg c (Some msg))) k =
     (if carries cfg k msg then JSON_parse (content msg) else Map_get c k)"
  by (auto simp: consume_def consume_try_def carries_def Map_get_set Let_def
        split: option.splits)

lemma last_applied_snoc:
  "last_applied_snapshot cfg (msgs @ [msg]) k =
     (if carries cfg k msg then JSON_parse (content msg) else last_applied_snapshot cfg msgs k)"
  by (simp add: last_applied_snapshot_def)

lemma carries_parse: "carries cfg k msg \<Longrightarrow> \<exists>u. JSON_parse (content msg) = Some u"
  by (auto simp: carries_def split: option.splits)

lemma consume_all_last_applied:
  "Map_get (consume_all cfg c msgs) k =
     (case last_applied_snapshot cfg msgs k of None \<Rightarrow> Map_get c k | Some u \<Rightarrow> Some u)"
proof (induction msgs rule: rev_induct)
  case Nil
  then show ?case by (simp add: consume_all_def last_applied_snapshot_def)
next
  case (snoc msg msgs)
  show ?case
  proof (cases "carries cfg k msg")
    case True
    then obtain u where "JSON_parse (content msg) = Some u"
      using carries_parse by blast
    with True show ?thesis
      by (simp add: consume_all_snoc consume_get last_applied_snoc)
  next
    case False
    with snoc show ?thesis
      by (simp add: consume_all_snoc consume_get last_applied_snoc)
  qed
qed

text \<open>So \<^verbatim>\<open>userCache.has\<close>, which the validation reads, knows every user an event carried.\<close>

lemma Map_has_consume_all:
  "Map_has (consume_all cfg c msgs) k = (last_applied_snapshot cfg msgs k \<noteq> None \<or> Map_has c k)"
  by (simp add: Map_has_get consume_all_last_applied split: option.splits)

lemma consume_all_get_cong:
  "(\<And>k. Map_get c k = Map_get c' k) \<Longrightarrow>
   Map_get (consume_all cfg c msgs) k = Map_get (consume_all cfg c' msgs) k"
proof (induction msgs arbitrary: c c' k)
  case Nil
  then show ?case by (simp add: consume_all_def)
next
  case (Cons msg msgs)
  have step: "Map_get (fst (consume cfg c (Some msg))) j = Map_get (fst (consume cfg c' (Some msg))) j"
    for j
    by (simp only: consume_get Cons.prems)
  show ?case
    unfolding consume_all_Cons by (rule Cons.IH) (rule step)
qed

lemma consume_all_replicate_get:
  "Map_get (consume_all cfg (fst (consume cfg c (Some msg))) (replicate n msg)) k
     = Map_get (fst (consume cfg c (Some msg))) k"
proof (induction n arbitrary: c)
  case 0
  show ?case by (simp add: consume_all_def)
next
  case (Suc n)
  have "Map_get (consume_all cfg (fst (consume cfg c (Some msg))) (replicate (Suc n) msg)) k
      = Map_get (consume_all cfg (fst (consume cfg (fst (consume cfg c (Some msg))) (Some msg)))
          (replicate n msg)) k"
    by (simp add: consume_all_Cons)
  also have "\<dots> = Map_get (fst (consume cfg (fst (consume cfg c (Some msg))) (Some msg))) k"
    by (rule Suc.IH)
  also have "\<dots> = Map_get (fst (consume cfg c (Some msg))) k"
    by (simp add: consume_get)
  finally show ?case .
qed

lemma consume_all_redelivery_get:
  "Map_get (consume_all cfg c (xs @ msg # replicate n msg @ ys)) k
     = Map_get (consume_all cfg c (xs @ msg # ys)) k"
  by (simp only: consume_all_append consume_all_Cons)
     (rule consume_all_get_cong, rule consume_all_replicate_get)

lemma consume_idem:
  "primitive_id msg \<Longrightarrow>
   fst (consume cfg (fst (consume cfg c (Some msg))) (Some msg)) = fst (consume cfg c (Some msg))"
  by (auto simp: consume_def consume_try_def primitive_id_def Map_set_idem Let_def
        split: option.splits)

lemma consume_all_replicate:
  "primitive_id msg \<Longrightarrow>
   consume_all cfg (fst (consume cfg c (Some msg))) (replicate n msg) = fst (consume cfg c (Some msg))"
  by (induction n) (simp_all add: consume_all_def consume_idem)

lemma consume_all_redelivery:
  "primitive_id msg \<Longrightarrow>
   consume_all cfg c (xs @ msg # replicate n msg @ ys) = consume_all cfg c (xs @ msg # ys)"
  by (simp add: consume_all_append consume_all_Cons consume_all_replicate)

text \<open>
  C2. For every finite sequence of messages delivered to the consumer, from any cache,
  what the cache holds for a user id is the payload of the last applied create or
  update event carrying that id (whatever its kind and whatever timestamps the payload
  embeds), or what it held before when there is none. Delivering an event again, any
  number of times in a row and anywhere in the sequence, changes nothing that a lookup
  returns; when the id is a primitive, as user ids are, the Map itself is the same.
  (An event delivered again after a later event for the same id is then the last
  applied one.)
\<close>

theorem C2_last_applied_wins_and_idempotent:
  "Map_get (consume_all cfg c msgs) k =
     (case last_applied_snapshot cfg msgs k of None \<Rightarrow> Map_get c k | Some u \<Rightarrow> Some u) \<and>
   Map_get (consume_all cfg c (xs @ msg # replicate n msg @ ys)) k
     = Map_get (consume_all cfg c (xs @ msg # ys)) k \<and>
   (primitive_id msg \<longrightarrow>
      consume_all cfg c (xs @ msg # replicate n msg @ ys) = consume_all cfg c (xs @ msg # ys))"
  using consume_all_last_applied consume_all_redelivery_get consume_all_redelivery
  by blast

theorem C2_last_applied_wins_and_idempotent_witness:
  "Map_get (consume_all cfg0 [] [msg_bea, msg_ana, msg_ana, msg_ana]) (JStr ''u1'') = Some user_ana \<and>
   last_applied_snapshot cfg0 [msg_bea, msg_ana, msg_ana, msg_ana] (JStr ''u1'') = Some user_ana \<and>
   primitive_id msg_ana \<and>
   consume_all cfg0 [] [msg_bea, msg_ana, msg_ana, msg_ana] = [(JStr ''u1'', user_ana)] \<and>
   consume_all cfg0 [] [msg_bea, msg_ana] = [(JStr ''u1'', user_ana)]"
proof -
  have p: "primitive_id msg_ana"
    by (simp add: primitive_id_def msg_ana_def user_ana_def)
  have l: "last_applied_snapshot cfg0 [msg_bea, msg_ana, msg_ana, msg_ana] (JStr ''u1'') = Some user_ana"
    by (simp add: last_applied_snapshot_def carries_def msg_ana_def msg_bea_def user_ana_def
          cfg0_def same_value_zero_def)
  have c: "consume_all cfg0 [] [msg_bea, msg_ana] = [(JStr ''u1'', user_ana)]"
    by (simp add: consume_all_def consume_def consume_try_def msg_ana_def msg_bea_def
          user_ana_def cfg0_def same_value_zero_def)
  have r: "[msg_bea] @ msg_ana # replicate 2 msg_ana @ [] = [msg_bea, msg_ana, msg_ana, msg_ana]"
    by (simp add: numeral_2_eq_2)
  show ?thesis
    using p l c
      C2_last_applied_wins_and_idempotent [where cfg = cfg0 and c = "[]"
        and msgs = "[msg_bea, msg_ana, msg_ana, msg_ana]" and k = "JStr ''u1''"
        and xs = "[msg_bea]" and msg = msg_ana and n = 2 and ys = "[]"]
    unfolding r by (simp add: same_value_zero_def)
qed

section \<open>The total of a persisted order\<close>

lemma body_negative_fields:
  "destructure_body body_negative = (JStr ''u1'', JArr [], JNum (- 5))"
  by (simp add: destructure_body_def body_negative_def js_or_def destructure_def)

text \<open>
  C4, as stated, fails: the handler checks the type of \<^verbatim>\<open>total\<close> and not its sign. A
  request with total -5 for a user the registry confirms is answered 201 and its order is
  in the table, with status created and total -5.
\<close>

theorem C4_negative_total_persisted:
  "status_code (resp (create_order cfg0 env_ok [] Map.empty body_negative)) = 201 \<and>
   map_option total (store (create_order cfg0 env_ok [] Map.empty body_negative) ''o_V1StGX'')
     = Some (JNum (- 5)) \<and>
   map_option status (store (create_order cfg0 env_ok [] Map.empty body_negative) ''o_V1StGX'')
     = Some ''created'' \<and>
   (- 5 :: rat) < 0"
  by (simp add: create_order_def body_negative_fields validate_def env_ok_def
        prisma_order_create_def JSON_stringify_def with_items_def Let_def)

text \<open>
  C4, amended. Every order that the order-creation operation adds to the table has status
  created and, as total, the value the request carried, which is of type number; its sign
  is not checked.
\<close>

theorem C4_persisted_total_is_the_requests_number:
  assumes "destructure_body req_body = (uid, its, tot)"
    and "store (create_order cfg e userCache tbl req_body) k \<noteq> tbl k"
  shows "\<exists>row t. store (create_order cfg e userCache tbl req_body) k = Some row \<and>
           tbl k = None \<and> status row = ''created'' \<and> total row = tot \<and> tot = JNum t"
proof -
  have num: "typeof v = ''number'' \<Longrightarrow> \<exists>t. v = JNum t" for v
    by (cases v) simp_all
  show ?thesis
    using assms num [of tot]
    by (auto simp: create_order_def prisma_order_create_def Let_def
          split: if_splits verdict.splits sum.splits option.splits)
qed

theorem C4_persisted_total_is_the_requests_number_witness:
  "destructure_body body_negative = (JStr ''u1'', JArr [], JNum (- 5)) \<and>
   store (create_order cfg0 env_ok [] Map.empty body_negative) ''o_V1StGX'' \<noteq> Map.empty ''o_V1StGX'' \<and>
   (\<exists>row t. store (create_order cfg0 env_ok [] Map.empty body_negative) ''o_V1StGX'' = Some row \<and>
           Map.empty ''o_V1StGX'' = (None :: json_text order_row option) \<and> status row = ''created'' \<and> total row = JNum (- 5) \<and> JNum (- 5) = JNum t)"
proof -
  have changed: "store (create_order cfg0 env_ok [] Map.empty body_negative) ''o_V1StGX''
      \<noteq> Map.empty ''o_V1StGX''"
    by (simp add: create_order_def body_negative_fields validate_def env_ok_def
        prisma_order_create_def JSON_stringify_def Let_def)
  show ?thesis
    using body_negative_fields changed
      C4_persisted_total_is_the_requests_number [OF body_negative_fields changed]
    by simp
qed

section \<open>The status of an order\<close>

text \<open>
  C5, as stated, fails: cancelling an order that is already cancelled is neither a no-op
  nor an error. In \<^verbatim>\<open>app.js\<close> the update runs again, refreshes \<^verbatim>\<open>updatedAt\<close>, a second
  order-cancelled event is published and the answer is 200; in \<^verbatim>\<open>index.js\<close> the event is
  published again and the answer is 200.
\<close>

theorem C5_second_cancel_succeeds_again:
  "status row_o1_cancelled = ''cancelled'' \<and>
   cancel_order cfg0 env_ok [''o_1'' \<mapsto> row_o1_cancelled] ''o_1'' =
     \<lparr>resp = \<lparr>status_code = 200,
               body = OrderBody (with_items (row_o1_cancelled\<lparr>updatedAt := 1000\<rparr>) (JArr []))\<rparr>,
      store = [''o_1'' \<mapsto> row_o1_cancelled\<lparr>updatedAt := 1000\<rparr>],
      trace = [PrismaUpdate ''o_1'' ''cancelled'' 1000,
               Publish ''app.topic'' ''order.cancelled'' (CancelPayload ''o_1'' ''cancelled'')]\<rparr> \<and>
   updatedAt row_o1_cancelled = 10 \<and>
   status order_o1_cancelled = ''cancelled'' \<and>
   cancel_order_index cfg0 env_ok [''o_1'' \<mapsto> order_o1_cancelled] ''o_1'' =
     \<lparr>resp = \<lparr>status_code = 200, body = OrderBody order_o1_cancelled\<rparr>,
      store = [''o_1'' \<mapsto> order_o1_cancelled],
      trace = [Publish ''app.topic'' ''order.cancelled'' (CancelPayload ''o_1'' ''cancelled'')]\<rparr>"
  by (simp add: cancel_order_def cancel_order_index_def prisma_order_update_def env_ok_def
        cfg0_def publish_def row_o1_cancelled_def row_o1_def order_o1_cancelled_def order_o1_def
        Let_def)

lemma cancel_order_store:
  "tbl k = Some r \<Longrightarrow>
   \<exists>r'. store (cancel_order cfg e tbl oid) k = Some r' \<and> (k \<noteq> oid \<longrightarrow> r' = r) \<and>
        (k = oid \<and> db_up e \<longrightarrow> status r' = ''cancelled'') \<and>
        (status r' = status r \<or> status r' = ''cancelled'')"
  by (auto simp: cancel_order_def prisma_order_update_def Let_def
        split: sum.splits option.splits if_splits)

lemma cancel_order_index_store:
  "orders k = Some r \<Longrightarrow>
   \<exists>r'. store (cancel_order_index cfg e orders oid) k = Some r' \<and> (k \<noteq> oid \<longrightarrow> r' = r) \<and>
        (k = oid \<longrightarrow> status r' = ''cancelled'') \<and>
        (status r' = status r \<or> status r' = ''cancelled'')"
  by (auto simp: cancel_order_index_def Let_def split: option.splits)

lemma create_order_keeps_rows:
  "tbl k = Some r \<Longrightarrow> store (create_order cfg e userCache tbl req_body) k = Some r"
  by (auto simp: create_order_def prisma_order_create_def Let_def
        split: prod.splits verdict.splits sum.splits option.splits if_splits)

lemma cancel_order_again:
  "tbl oid = Some r \<Longrightarrow> status r = ''cancelled'' \<Longrightarrow> db_up e \<Longrightarrow>
   JSON_parse (items r) = Some parsed \<Longrightarrow>
   cancel_order cfg e tbl oid =
     \<lparr>resp = \<lparr>status_code = 200, body = OrderBody (with_items (r\<lparr>updatedAt := now e\<rparr>) parsed)\<rparr>,
      store = tbl(oid \<mapsto> r\<lparr>updatedAt := now e\<rparr>),
      trace = PrismaUpdate oid ''cancelled'' (now e)
                # publish cfg e (ORDER_CANCELLED cfg) (CancelPayload oid ''cancelled'')\<rparr>"
  by (cases r) (simp add: cancel_order_def prisma_order_update_def Let_def)

lemma cancel_order_index_again:
  "orders oid = Some r \<Longrightarrow> status r = ''cancelled'' \<Longrightarrow>
   cancel_order_index cfg e orders oid =
     \<lparr>resp = \<lparr>status_code = 200, body = OrderBody r\<rparr>,
      store = orders,
      trace = publish cfg e (ORDER_CANCELLED cfg) (CancelPayload oid ''cancelled'')\<rparr>"
  by (cases r) (auto simp add: cancel_order_index_def Let_def)

text \<open>
  C5, amended. The status of a stored order only ever moves to cancelled, never back:
  a cancel leaves every other order as it was, leaves the order it names with the status
  it had or cancelled (cancelled, when the database answers), and the creation of an
  order changes no stored order. Cancelling an order that is already cancelled succeeds
  like a first cancellation: the answer is 200 with the order, the status stays
  cancelled, another order-cancelled event is published when the channel is there, and
  \<^verbatim>\<open>app.js\<close> refreshes \<^verbatim>\<open>updatedAt\<close>.
\<close>

theorem C5_status_only_moves_to_cancelled:
  "(tbl k = Some r \<longrightarrow>
      (\<exists>r'. store (cancel_order cfg e tbl oid) k = Some r' \<and> (k \<noteq> oid \<longrightarrow> r' = r) \<and>
            (k = oid \<and> db_up e \<longrightarrow> status r' = ''cancelled'') \<and>
            (status r' = status r \<or> status r' = ''cancelled'')) \<and>
      store (create_order cfg e userCache tbl req_body) k = Some r) \<and>
   (orders k = Some ord \<longrightarrow>
      (\<exists>ord'. store (cancel_order_index cfg e orders oid) k = Some ord' \<and>
            (k \<noteq> oid \<longrightarrow> ord' = ord) \<and> (k = oid \<longrightarrow> status ord' = ''cancelled'') \<and>
            (status ord' = status ord \<or> status ord' = ''cancelled''))) \<and>
   (tbl oid = Some r \<and> status r = ''cancelled'' \<and> db_up e \<and> JSON_parse (items r) = Some parsed \<longrightarrow>
      cancel_order cfg e tbl oid =
        \<lparr>resp = \<lparr>status_code = 200,
                  body = OrderBody (with_items (r\<lparr>updatedAt := now e\<rparr>) parsed)\<rparr>,
         store = tbl(oid \<mapsto> r\<lparr>updatedAt := now e\<rparr>),
         trace = PrismaUpdate oid ''cancelled'' (now e)
                   # publish cfg e (ORDER_CANCELLED cfg) (CancelPayload oid ''cancelled'')\<rparr>) \<and>
   (orders oid = Some ord \<and> status ord = ''cancelled'' \<longrightarrow>
      cancel_order_index cfg e orders oid =
        \<lparr>resp = \<lparr>status_code = 200, body = OrderBody ord\<rparr>,
         store = orders,
         trace = publish cfg e (ORDER_CANCELLED cfg) (CancelPayload oid ''cancelled'')\<rparr>)"
  using cancel_order_store [of tbl k r cfg e oid] cancel_order_index_store [of orders k ord cfg e oid]
    create_order_keeps_rows [of tbl k r cfg e userCache req_body]
    cancel_order_again [of tbl oid r e parsed cfg] cancel_order_index_again [of orders oid ord cfg e]
  by blast

theorem C5_status_only_moves_to_cancelled_witness:
  "[''o_1'' \<mapsto> row_o1_cancelled] ''o_1'' = Some row_o1_cancelled \<and>
   status row_o1_cancelled = ''cancelled'' \<and> db_up env_ok \<and>
   JSON_parse (items row_o1_cancelled) = Some (JArr []) \<and>
   store (create_order cfg0 env_ok [] [''o_1'' \<mapsto> row_o1_cancelled] body_u9) ''o_1''
     = Some row_o1_cancelled \<and>
   map_option status (store (cancel_order cfg0 env_ok [''o_1'' \<mapsto> row_o1_cancelled] ''o_1'') ''o_1'')
     = Some ''cancelled'' \<and>
   status_code (resp (cancel_order cfg0 env_ok [''o_1'' \<mapsto> row_o1_cancelled] ''o_1'')) = 200 \<and>
   [''o_1'' \<mapsto> order_o1_cancelled] ''o_1'' = Some order_o1_cancelled \<and>
   status order_o1_cancelled = ''cancelled'' \<and>
   store (cancel_order_index cfg0 env_ok [''o_1'' \<mapsto> order_o1_cancelled] ''o_1'')
     = [''o_1'' \<mapsto> order_o1_cancelled]"
proof -
  have s: "status row_o1_cancelled = ''cancelled''" "status order_o1_cancelled = ''cancelled''"
    by (simp_all add: row_o1_cancelled_def order_o1_cancelled_def)
  have i: "JSON_parse (items row_o1_cancelled) = Some (JArr [])"
    by (simp add: row_o1_cancelled_def row_o1_def)
  have d: "db_up env_ok"
    by (simp add: env_ok_def)
  show ?thesis
    using s i d
      C5_status_only_moves_to_cancelled [where tbl = "[''o_1'' \<mapsto> row_o1_cancelled]"
        and k = "''o_1''" and r = row_o1_cancelled and cfg = cfg0 and e = env_ok
        and oid = "''o_1''" and userCache = "[]" and req_body = body_u9
        and orders = "[''o_1'' \<mapsto> order_o1_cancelled]" and ord = order_o1_cancelled
        and parsed = "JArr []"]
    by auto
qed

section \<open>Publishing after the state change\<close>

lemma is_publish_publish: "list_ex is_publish (publish cfg e k p) \<Longrightarrow>
   \<exists>a. publish cfg e k p = [a] \<and> is_publish a"
  by (auto simp: publish_def split: if_splits)

lemma create_order_publishes_after:
  "list_ex is_publish (trace (create_order cfg e userCache tbl req_body)) \<Longrightarrow>
   \<exists>d row a. trace (create_order cfg e userCache tbl req_body)
               = [BreakerFire (userId d), PrismaCreate d, a] \<and> is_publish a \<and>
     tbl (id_order d) = None \<and>
     store (create_order cfg e userCache tbl req_body) (id_order d) = Some row \<and>
     status row = ''created'' \<and>
     status_code (resp (create_order cfg e userCache tbl req_body)) = 201"
  by (auto simp: create_order_def prisma_order_create_def Let_def
        split: prod.splits verdict.splits sum.splits option.splits if_splits
        dest!: is_publish_publish)

lemma cancel_order_publishes_after:
  "list_ex is_publish (trace (cancel_order cfg e tbl oid)) \<Longrightarrow>
   \<exists>row a. trace (cancel_order cfg e tbl oid) = [PrismaUpdate oid ''cancelled'' (now e), a] \<and>
     is_publish a \<and>
     store (cancel_order cfg e tbl oid) oid = Some row \<and> status row = ''cancelled'' \<and>
     status_code (resp (cancel_order cfg e tbl oid)) = 200"
  by (auto simp: cancel_order_def prisma_order_update_def Let_def
        split: sum.splits option.splits if_splits
        dest!: is_publish_publish)

lemma create_order_committed:
  assumes "destructure_body req_body = (uid, its, tot)"
    and "truthy uid" and "Array_isArray its" and "typeof tot = ''number''"
    and "validate userCache uid (fire e) = Admit"
    and "db_up e" and "tbl (''o_'' @ nanoid e 6) = None"
  shows "create_order cfg e userCache tbl req_body =
     \<lparr>resp = \<lparr>status_code = 201,
               body = OrderBody \<lparr>id_order = ''o_'' @ nanoid e 6, userId = uid, items = its,
                                 total = tot, status = ''created'', createdAt = now e,
                                 updatedAt = now e\<rparr>\<rparr>,
      store = tbl(''o_'' @ nanoid e 6 \<mapsto>
                \<lparr>id_order = ''o_'' @ nanoid e 6, userId = uid, items = Encoded its,
                 total = tot, status = ''created'', createdAt = now e, updatedAt = now e\<rparr>),
      trace = [BreakerFire uid,
               PrismaCreate \<lparr>id_order = ''o_'' @ nanoid e 6, userId = uid,
                             items = Encoded its, total = tot, status = ''created''\<rparr>]
              @ (if amqp_ch e
                 then [(if publish_throws e then PublishThrew else Publish)
                         (EXCHANGE cfg) (ORDER_CREATED cfg)
                         (OrderPayload \<lparr>id_order = ''o_'' @ nanoid e 6, userId = uid,
                                        items = its, total = tot, status = ''created'',
                                        createdAt = now e, updatedAt = now e\<rparr>)]
                 else [])\<rparr>"
  using assms
  by (simp add: create_order_def prisma_order_create_def JSON_stringify_def with_items_def
        publish_def Let_def)

lemma cancel_order_committed:
  assumes "tbl oid = Some r" and "db_up e" and "JSON_parse (items r) = Some parsed"
  shows "cancel_order cfg e tbl oid =
     \<lparr>resp = \<lparr>status_code = 200,
               body = OrderBody \<lparr>id_order = id_order r, userId = userId r, items = parsed,
                                 total = total r, status = ''cancelled'',
                                 createdAt = createdAt r, updatedAt = now e\<rparr>\<rparr>,
      store = tbl(oid \<mapsto> r\<lparr>status := ''cancelled'', updatedAt := now e\<rparr>),
      trace = PrismaUpdate oid ''cancelled'' (now e)
              # (if amqp_ch e
                 then [(if publish_throws e then PublishThrew else Publish)
                         (EXCHANGE cfg) (ORDER_CANCELLED cfg) (CancelPayload oid ''cancelled'')]
                 else [])\<rparr>"
  using assms
  by (simp add: cancel_order_def prisma_order_update_def with_items_def publish_def Let_def)

text \<open>
  C8. For create and for cancel (\<^verbatim>\<open>app.js\<close>): a publish is attempted only after the table
  has recorded the change, as the last step of a handler that answers with success (the
  stored order is created, or cancelled); and once the table has recorded the change,
  the answer is the success, 201 or 200, with every field of the mutated order, and the
  change stays in the table, whether there is no channel, the publish returns or the
  publish throws.
\<close>

theorem C8_publish_after_commit_best_effort:
  "(list_ex is_publish (trace (create_order cfg e userCache tbl req_body)) \<longrightarrow>
      (\<exists>d row a. trace (create_order cfg e userCache tbl req_body)
                   = [BreakerFire (userId d), PrismaCreate d, a] \<and> is_publish a \<and>
         tbl (id_order d) = None \<and>
         store (create_order cfg e userCache tbl req_body) (id_order d) = Some row \<and>
         status row = ''created'' \<and>
         status_code (resp (create_order cfg e userCache tbl req_body)) = 201)) \<and>
   (list_ex is_publish (trace (cancel_order cfg e tbl oid)) \<longrightarrow>
      (\<exists>row a. trace (cancel_order cfg e tbl oid) = [PrismaUpdate oid ''cancelled'' (now e), a] \<and>
         is_publish a \<and>
         store (cancel_order cfg e tbl oid) oid = Some row \<and> status row = ''cancelled'' \<and>
         status_code (resp (cancel_order cfg e tbl oid)) = 200)) \<and>
   (destructure_body req_body = (uid, its, tot) \<and>
    truthy uid \<and> Array_isArray its \<and> typeof tot = ''number'' \<and>
    validate userCache uid (fire e) = Admit \<and>
    db_up e \<and> tbl (''o_'' @ nanoid e 6) = None \<longrightarrow>
      create_order cfg e userCache tbl req_body =
        \<lparr>resp = \<lparr>status_code = 201,
                  body = OrderBody \<lparr>id_order = ''o_'' @ nanoid e 6, userId = uid, items = its,
                                    total = tot, status = ''created'', createdAt = now e,
                                    updatedAt = now e\<rparr>\<rparr>,
         store = tbl(''o_'' @ nanoid e 6 \<mapsto>
                   \<lparr>id_order = ''o_'' @ nanoid e 6, userId = uid, items = Encoded its,
                    total = tot, status = ''created'', createdAt = now e, updatedAt = now e\<rparr>),
         trace = [BreakerFire uid,
                  PrismaCreate \<lparr>id_order = ''o_'' @ nanoid e 6, userId = uid,
                                items = Encoded its, total = tot, status = ''created''\<rparr>]
                 @ (if amqp_ch e
                    then [(if publish_throws e then PublishThrew else Publish)
                            (EXCHANGE cfg) (ORDER_CREATED cfg)
                            (OrderPayload \<lparr>id_order = ''o_'' @ nanoid e 6, userId = uid,
                                           items = its, total = tot, status = ''created'',
                                           createdAt = now e, updatedAt = now e\<rparr>)]
                    else [])\<rparr>) \<and>
   (tbl oid = Some r \<and> db_up e \<and> JSON_parse (items r) = Some parsed \<longrightarrow>
      cancel_order cfg e tbl oid =
        \<lparr>resp = \<lparr>status_code = 200,
                  body = OrderBody \<lparr>id_order = id_order r, userId = userId r, items = parsed,
                                    total = total r, status = ''cancelled'',
                                    createdAt = createdAt r, updatedAt = now e\<rparr>\<rparr>,
         store = tbl(oid \<mapsto> r\<lparr>status := ''cancelled'', updatedAt := now e\<rparr>),
         trace = PrismaUpdate oid ''cancelled'' (now e)
                 # (if amqp_ch e
                    then [(if publish_throws e then PublishThrew else Publish)
                            (EXCHANGE cfg) (ORDER_CANCELLED cfg)
                            (CancelPayload oid ''cancelled'')]
                    else [])\<rparr>)"
  using create_order_publishes_after [of cfg e userCache tbl req_body]
    cancel_order_publishes_after [of cfg e tbl oid]
    create_order_committed [of req_body uid its tot userCache e tbl cfg]
    cancel_order_committed [of tbl oid r e parsed cfg]
  by blast

theorem C8_publish_after_commit_best_effort_witness:
  "publish_throws env_publish_fails \<and>
   create_order cfg0 env_publish_fails [] Map.empty body_u9 =
     \<lparr>resp = \<lparr>status_code = 201,
               body = OrderBody \<lparr>id_order = ''o_V1StGX'', userId = JStr ''u9'',
                                 items = JArr [JObj [(''sku'', JStr ''a'')]],
                                 total = JNum 150, status = ''created'',
                                 createdAt = 1000, updatedAt = 1000\<rparr>\<rparr>,
      store = [''o_V1StGX'' \<mapsto> row_u9],
      trace = [BreakerFire (JStr ''u9''),
               PrismaCreate \<lparr>id_order = ''o_V1StGX'', userId = JStr ''u9'',
                             items = Encoded (JArr [JObj [(''sku'', JStr ''a'')]]),
                             total = JNum 150, status = ''created''\<rparr>,
               PublishThrew ''app.topic'' ''order.created''
                 (OrderPayload \<lparr>id_order = ''o_V1StGX'', userId = JStr ''u9'',
                                items = JArr [JObj [(''sku'', JStr ''a'')]],
                                total = JNum 150, status = ''created'',
                                createdAt = 1000, updatedAt = 1000\<rparr>)]\<rparr> \<and>
   list_ex is_publish (trace (create_order cfg0 env_publish_fails [] Map.empty body_u9)) \<and>
   cancel_order cfg0 env_publish_fails [''o_1'' \<mapsto> row_o1] ''o_1'' =
     \<lparr>resp = \<lparr>status_code = 200,
               body = OrderBody \<lparr>id_order = ''o_1'', userId = JStr ''u1'', items = JArr [],
                                 total = JNum 50, status = ''cancelled'',
                                 createdAt = 10, updatedAt = 1000\<rparr>\<rparr>,
      store = [''o_1'' \<mapsto> \<lparr>id_order = ''o_1'', userId = JStr ''u1'', items = Encoded (JArr []),
                              total = JNum 50, status = ''cancelled'',
                              createdAt = 10, updatedAt = 1000\<rparr>],
      trace = [PrismaUpdate ''o_1'' ''cancelled'' 1000,
               PublishThrew ''app.topic'' ''order.cancelled''
                 (CancelPayload ''o_1'' ''cancelled'')]\<rparr> \<and>
   list_ex is_publish (trace (cancel_order cfg0 env_publish_fails [''o_1'' \<mapsto> row_o1] ''o_1''))"
proof -
  have e: "amqp_ch env_publish_fails" "publish_throws env_publish_fails"
      "db_up env_publish_fails" "now env_publish_fails = 1000"
      "fire env_publish_fails = Resolved" "nanoid env_publish_fails 6 = ''V1StGX''"
    by (simp_all add: env_publish_fails_def env_ok_def)
  have c: "EXCHANGE cfg0 = ''app.topic''" "ORDER_CREATED cfg0 = ''order.created''"
      "ORDER_CANCELLED cfg0 = ''order.cancelled''"
    by (simp_all add: cfg0_def)
  have v: "validate [] (JStr ''u9'') (fire env_publish_fails) = Admit"
    by (simp add: e validate_def)
  have fresh: "Map.empty (''o_'' @ nanoid env_publish_fails 6) = (None :: json_text order_row option)"
    by simp
  have there: "[''o_1'' \<mapsto> row_o1] ''o_1'' = Some row_o1"
    by simp
  have it: "JSON_parse (items row_o1) = Some (JArr [])"
    by (simp add: row_o1_def)
  have create: "create_order cfg0 env_publish_fails [] Map.empty body_u9 =
     \<lparr>resp = \<lparr>status_code = 201,
               body = OrderBody \<lparr>id_order = ''o_V1StGX'', userId = JStr ''u9'',
                                 items = JArr [JObj [(''sku'', JStr ''a'')]],
                                 total = JNum 150, status = ''created'',
                                 createdAt = 1000, updatedAt = 1000\<rparr>\<rparr>,
      store = [''o_V1StGX'' \<mapsto> row_u9],
      trace = [BreakerFire (JStr ''u9''),
               PrismaCreate \<lparr>id_order = ''o_V1StGX'', userId = JStr ''u9'',
                             items = Encoded (JArr [JObj [(''sku'', JStr ''a'')]]),
                             total = JNum 150, status = ''created''\<rparr>,
               PublishThrew ''app.topic'' ''order.created''
                 (OrderPayload \<lparr>id_order = ''o_V1StGX'', userId = JStr ''u9'',
                                items = JArr [JObj [(''sku'', JStr ''a'')]],
                                total = JNum 150, status = ''created'',
                                createdAt = 1000, updatedAt = 1000\<rparr>)]\<rparr>"
    using body_u9_fields v fresh e(3)
      C8_publish_after_commit_best_effort [where req_body = body_u9 and e = env_publish_fails
        and userCache = "[]" and tbl = Map.empty and cfg = cfg0 and uid = "JStr ''u9''"
        and its = "JArr [JObj [(''sku'', JStr ''a'')]]" and tot = "JNum 150"]
    by (simp add: e c row_u9_def)
  have cancel: "cancel_order cfg0 env_publish_fails [''o_1'' \<mapsto> row_o1] ''o_1'' =
     \<lparr>resp = \<lparr>status_code = 200,
               body = OrderBody \<lparr>id_order = ''o_1'', userId = JStr ''u1'', items = JArr [],
                                 total = JNum 50, status = ''cancelled'',
                                 createdAt = 10, updatedAt = 1000\<rparr>\<rparr>,
      store = [''o_1'' \<mapsto> \<lparr>id_order = ''o_1'', userId = JStr ''u1'', items = Encoded (JArr []),
                              total = JNum 50, status = ''cancelled'',
                              createdAt = 10, updatedAt = 1000\<rparr>],
      trace = [PrismaUpdate ''o_1'' ''cancelled'' 1000,
               PublishThrew ''app.topic'' ''order.cancelled''
                 (CancelPayload ''o_1'' ''cancelled'')]\<rparr>"
    using there it e(3)
      C8_publish_after_commit_best_effort [where e = env_publish_fails
        and tbl = "[''o_1'' \<mapsto> row_o1]" and cfg = cfg0 and oid = "''o_1''"
        and r = row_o1 and parsed = "JArr []"]
    by (simp add: e c row_o1_def)
  show ?thesis
    by (simp add: create cancel e)
qed

end
